theory Spec2Isabelle
  imports Main
begin

section \<open>goconfig: a shallow embedding of \<^verbatim>\<open>goconfig.go\<close>\<close>

text \<open>
  The package loads a configuration struct from a yaml file and from the process
  environment, checks the fields tagged \<^verbatim>\<open>required:"true"\<close> and can reload on SIGHUP.
  The two decoders (\<^verbatim>\<open>yaml.Unmarshal\<close>, \<^verbatim>\<open>env.Parse\<close>) and the file system
  (\<^verbatim>\<open>ioutil.ReadFile\<close>) are libraries outside the package: they are parameters of the
  model. Everything else is translated from the source, function by function.
\<close>

subsection \<open>Values as package \<^verbatim>\<open>reflect\<close> sees them\<close>

text \<open>
  \<^verbatim>\<open>reflect.Kind\<close>, restricted to the kinds modelled here. The integer kinds
  (\<^verbatim>\<open>Int\<close> to \<^verbatim>\<open>Uintptr\<close>) are one kind, since the code only compares a number
  with zero; floating-point and complex numbers are left out.
\<close>

datatype kind = KBool | KInt | KString | KChan | KFunc | KInterface | KMap | KSlice
  | KArray | KStruct | KPtr

text \<open>
  \<^verbatim>\<open>reflect.StructField\<close>: the name of a field, its tag (the key/value pairs that
  \<^verbatim>\<open>Tag.Get\<close> looks up) and whether it is an embedded field.
\<close>

record StructField =
  Name :: string
  Tag :: "(string \<times> string) list"
  Anonymous :: bool

text \<open>
  A Go value. A nil channel, function, interface, map, slice or pointer is \<open>None\<close>; an
  allocated map or slice is \<open>Some\<close> of its content, possibly empty. A pointer carries the
  value it points to, so pointer chains are finite and aliasing is not represented.
\<close>

datatype rval =
    VBool bool
  | VInt int
  | VString string
  | VChan "nat option"
  | VFunc "nat option"
  | VInterface "rval option"
  | VMap "(rval \<times> rval) list option"
  | VSlice "rval list option"
  | VArray "rval list"
  | VStruct "(StructField \<times> rval) list"
  | VPtr "rval option"

fun Kind :: "rval \<Rightarrow> kind" where
  "Kind (VBool _) = KBool"
| "Kind (VInt _) = KInt"
| "Kind (VString _) = KString"
| "Kind (VChan _) = KChan"
| "Kind (VFunc _) = KFunc"
| "Kind (VInterface _) = KInterface"
| "Kind (VMap _) = KMap"
| "Kind (VSlice _) = KSlice"
| "Kind (VArray _) = KArray"
| "Kind (VStruct _) = KStruct"
| "Kind (VPtr _) = KPtr"

text \<open>
  The flag bits of a \<^verbatim>\<open>reflect.Value\<close> that decide \<^verbatim>\<open>CanSet\<close> and
  \<^verbatim>\<open>Interface\<close>: addressable, reached through an unexported field
  (\<^verbatim>\<open>flagStickyRO\<close>), reached through an unexported embedded field
  (\<^verbatim>\<open>flagEmbedRO\<close>).
\<close>

record flag =
  flagAddr :: bool
  flagStickyRO :: bool
  flagEmbedRO :: bool

definition flagRO :: "flag \<Rightarrow> bool" where
  "flagRO fl = (flagStickyRO fl \<or> flagEmbedRO fl)"

text \<open>\<^verbatim>\<open>reflect.ValueOf\<close>: not addressable, not read-only.\<close>

definition ValueOf_flag :: flag where
  "ValueOf_flag = \<lparr>flagAddr = False, flagStickyRO = False, flagEmbedRO = False\<rparr>"

text \<open>\<^verbatim>\<open>Value.Elem\<close> of a pointer (\<^verbatim>\<open>reflect.Indirect\<close>): addressable, read-only bits kept.\<close>

definition Elem_flag :: "flag \<Rightarrow> flag" where
  "Elem_flag fl = fl\<lparr>flagAddr := True\<rparr>"

text \<open>
  A field name is exported when it starts with an upper-case letter. Names are taken to
  start with an ASCII letter: a name whose first letter is an upper-case letter outside
  ASCII, which Go exports too, is outside the model.
\<close>

definition IsExported :: "string \<Rightarrow> bool" where
  "IsExported n = (case n of [] \<Rightarrow> False | c # _ \<Rightarrow> c \<in> set ''ABCDEFGHIJKLMNOPQRSTUVWXYZ'')"

text \<open>
  \<^verbatim>\<open>Value.Field\<close>: the field inherits addressability and \<^verbatim>\<open>flagStickyRO\<close>, drops
  \<^verbatim>\<open>flagEmbedRO\<close>, and an unexported field adds \<^verbatim>\<open>flagEmbedRO\<close> when embedded,
  \<^verbatim>\<open>flagStickyRO\<close> otherwise.
\<close>

definition Field_flag :: "flag \<Rightarrow> StructField \<Rightarrow> flag" where
  "Field_flag fl f =
     (if IsExported (Name f) then fl\<lparr>flagEmbedRO := False\<rparr>
      else if Anonymous f then fl\<lparr>flagEmbedRO := True\<rparr>
      else fl\<lparr>flagStickyRO := True, flagEmbedRO := False\<rparr>)"

text \<open>\<^verbatim>\<open>Value.Index\<close> of an array: any read-only bit becomes \<^verbatim>\<open>flagStickyRO\<close>.\<close>

definition Index_flag :: "flag \<Rightarrow> flag" where
  "Index_flag fl = fl\<lparr>flagStickyRO := flagRO fl, flagEmbedRO := False\<rparr>"

definition CanSet :: "flag \<Rightarrow> bool" where
  "CanSet fl = (flagAddr fl \<and> \<not> flagRO fl)"

text \<open>\<^verbatim>\<open>Tag.Get\<close>: the value of a key, the empty string when the key is absent.\<close>

definition Tag_Get :: "(string \<times> string) list \<Rightarrow> string \<Rightarrow> string" where
  "Tag_Get t k = (case map_of t k of Some v \<Rightarrow> v | None \<Rightarrow> [])"

text \<open>
  A panic is the left summand, with its message. \<^verbatim>\<open>Value.IsNil\<close> panics on a kind that
  has no nil; \<^verbatim>\<open>Value.Interface\<close> panics on a value reached through an unexported field.
\<close>

definition IsNil_panic :: string where
  "IsNil_panic = ''reflect: call of reflect.Value.IsNil on a value that has no nil''"

definition Interface_panic :: string where
  "Interface_panic =
     ''reflect.Value.Interface: cannot return value obtained from unexported field or method''"

fun IsNil :: "rval \<Rightarrow> string + bool" where
  "IsNil (VChan c) = Inr (c = None)"
| "IsNil (VFunc f) = Inr (f = None)"
| "IsNil (VInterface i) = Inr (i = None)"
| "IsNil (VMap m) = Inr (m = None)"
| "IsNil (VPtr p) = Inr (p = None)"
| "IsNil (VSlice s) = Inr (s = None)"
| "IsNil _ = Inl IsNil_panic"

text \<open>
  \<^verbatim>\<open>v.Interface() == reflect.Zero(v.Type()).Interface()\<close> for the kinds that
  \<^verbatim>\<open>isZero\<close> compares directly. A non-nil interface differs from the nil interface by its
  dynamic type, so the comparison never looks at an incomparable payload.
\<close>

fun equals_Zero :: "rval \<Rightarrow> bool" where
  "equals_Zero (VBool b) = (\<not> b)"
| "equals_Zero (VInt i) = (i = 0)"
| "equals_Zero (VString s) = (s = [])"
| "equals_Zero (VChan c) = (c = None)"
| "equals_Zero (VInterface i) = (i = None)"
| "equals_Zero _ = False"

subsection \<open>\<^verbatim>\<open>isZero\<close> (lines 155--184)\<close>

text \<open>
  One equation per case of the \<^verbatim>\<open>switch v.Kind()\<close>. The two loops keep the
  accumulator \<^verbatim>\<open>z\<close>; \<^verbatim>\<open>z = z && isZero(...)\<close> does not call \<^verbatim>\<open>isZero\<close> once
  \<^verbatim>\<open>z\<close> is false.
\<close>

fun isZero :: "flag \<Rightarrow> rval \<Rightarrow> string + bool"
and isZero_Array :: "flag \<Rightarrow> bool \<Rightarrow> rval list \<Rightarrow> string + bool"
and isZero_Struct :: "flag \<Rightarrow> bool \<Rightarrow> (StructField \<times> rval) list \<Rightarrow> string + bool"
where
  "isZero fl (VFunc f) = IsNil (VFunc f)"
| "isZero fl (VMap m) = IsNil (VMap m)"
| "isZero fl (VSlice s) = IsNil (VSlice s)"
| "isZero fl (VArray xs) = isZero_Array (Index_flag fl) True xs"
| "isZero fl (VStruct fs) = isZero_Struct fl True fs"
| "isZero fl (VPtr p) = IsNil (VPtr p)"
| "isZero fl (VBool b) = (if flagRO fl then Inl Interface_panic else Inr (equals_Zero (VBool b)))"
| "isZero fl (VInt i) = (if flagRO fl then Inl Interface_panic else Inr (equals_Zero (VInt i)))"
| "isZero fl (VString s) =
     (if flagRO fl then Inl Interface_panic else Inr (equals_Zero (VString s)))"
| "isZero fl (VChan c) = (if flagRO fl then Inl Interface_panic else Inr (equals_Zero (VChan c)))"
| "isZero fl (VInterface i) =
     (if flagRO fl then Inl Interface_panic else Inr (equals_Zero (VInterface i)))"
| "isZero_Array fl z [] = Inr z"
| "isZero_Array fl z (x # xs) =
     (if z then (case isZero fl x of Inl p \<Rightarrow> Inl p | Inr b \<Rightarrow> isZero_Array fl b xs)
      else isZero_Array fl False xs)"
| "isZero_Struct fl z [] = Inr z"
| "isZero_Struct fl z ((f, x) # fs) =
     (if CanSet (Field_flag fl f)
      then (if z then (case isZero (Field_flag fl f) x of
                         Inl p \<Rightarrow> Inl p
                       | Inr b \<Rightarrow> isZero_Struct fl b fs)
            else isZero_Struct fl False fs)
      else isZero_Struct fl z fs)"

subsection \<open>\<^verbatim>\<open>findMissingRequiredFields\<close> (lines 125--152)\<close>

datatype error =
    MissingRequiredStructFields "string list"
  | errorString string
  | yamlError string
  | envError string

text \<open>\<^verbatim>\<open>append\<close> on a slice that may be nil: the result is never nil.\<close>

fun append_slice :: "'a list option \<Rightarrow> 'a \<Rightarrow> 'a list option" where
  "append_slice None x = Some [x]"
| "append_slice (Some xs) x = Some (xs @ [x])"

text \<open>The loop over the fields of the struct (lines 131--138).\<close>

fun scanFields ::
  "flag \<Rightarrow> string list option \<Rightarrow> (StructField \<times> rval) list \<Rightarrow> string + string list option"
where
  "scanFields fl missing [] = Inr missing"
| "scanFields fl missing ((f, x) # fs) =
     (if Tag_Get (Tag f) ''required'' = ''true''
      then (case isZero (Field_flag fl f) x of
              Inl p \<Rightarrow> Inl p
            | Inr z \<Rightarrow> scanFields fl (if z then append_slice missing (Name f) else missing) fs)
      else scanFields fl missing fs)"

text \<open>
  The \<^verbatim>\<open>for { switch value.Kind() ... }\<close> loop: a struct is scanned, a pointer is
  followed, anything else is an error. The result is a panic or the returned \<^verbatim>\<open>error\<close>
  (\<open>None\<close> is Go's nil error).
\<close>

fun findMissingRequiredFields_loop :: "flag \<Rightarrow> rval \<Rightarrow> string + error option" where
  "findMissingRequiredFields_loop fl (VStruct fs) =
     (case scanFields fl None fs of
        Inl p \<Rightarrow> Inl p
      | Inr None \<Rightarrow> Inr None
      | Inr (Some missing) \<Rightarrow> Inr (Some (MissingRequiredStructFields missing)))"
| "findMissingRequiredFields_loop fl (VPtr None) = Inr (Some (errorString ''nil pointer!''))"
| "findMissingRequiredFields_loop fl (VPtr (Some v)) =
     findMissingRequiredFields_loop (Elem_flag fl) v"
| "findMissingRequiredFields_loop fl _ = Inr (Some (errorString ''Not a struct!''))"

definition findMissingRequiredFields :: "rval \<Rightarrow> string + error option" where
  "findMissingRequiredFields val = findMissingRequiredFields_loop ValueOf_flag val"

subsection \<open>The \<^verbatim>\<open>Config\<close> struct and its methods (lines 18--70)\<close>

definition DebugError :: int where "DebugError = 0"
definition DebugWarning :: int where "DebugWarning = 1"
definition DebugInfo :: int where "DebugInfo = 2"
definition DebugVerbose :: int where "DebugVerbose = 3"

definition debugLevelMap :: "string \<rightharpoonup> int" where
  "debugLevelMap = map_of
     [(''error'', DebugError), (''warning'', DebugWarning),
      (''info'', DebugInfo), (''verbose'', DebugVerbose)]"

text \<open>Indexing a Go map of integers: a missing key yields 0.\<close>

definition map_index :: "(string \<rightharpoonup> int) \<Rightarrow> string \<Rightarrow> int" where
  "map_index m k = (case m k of Some v \<Rightarrow> v | None \<Rightarrow> 0)"

text \<open>
  The state behind the five methods of the interface \<^verbatim>\<open>Configterface\<close>: the file name,
  the listening flag and the mutex (\<open>True\<close> while it is locked). \<^verbatim>\<open>Config\<close> is that
  state and the debug level; a record extension plays the part of Go's embedding, so the
  methods below apply to every record that extends it.
\<close>

record Configterface =
  filename :: string
  listening :: bool
  Mutex :: bool

record Config = Configterface +
  Debug :: string

definition GetFilename :: "'a Configterface_scheme \<Rightarrow> string" where
  "GetFilename c = filename c"

definition SetFilename :: "'a Configterface_scheme \<Rightarrow> string \<Rightarrow> 'a Configterface_scheme" where
  "SetFilename c fname = c\<lparr>filename := fname\<rparr>"

definition IsListening :: "'a Configterface_scheme \<Rightarrow> bool" where
  "IsListening c = listening c"

definition SetListening :: "'a Configterface_scheme \<Rightarrow> bool \<Rightarrow> 'a Configterface_scheme" where
  "SetListening c l = c\<lparr>listening := l\<rparr>"

text \<open>
  \<^verbatim>\<open>Lock\<close> and \<^verbatim>\<open>Unlock\<close> of the embedded \<^verbatim>\<open>sync.Mutex\<close>. \<^verbatim>\<open>Lock\<close> on a locked mutex
  waits; the callers below test the mutex first and report \<open>Blocked\<close> in that case.
\<close>

definition Lock :: "'a Configterface_scheme \<Rightarrow> 'a Configterface_scheme" where
  "Lock c = c\<lparr>Mutex := True\<rparr>"

definition Unlock :: "'a Configterface_scheme \<Rightarrow> 'a Configterface_scheme" where
  "Unlock c = c\<lparr>Mutex := False\<rparr>"

definition DebugLevel :: "'a Config_scheme \<Rightarrow> string \<Rightarrow> bool" where
  "DebugLevel c level = (map_index debugLevelMap (Debug c) \<ge> map_index debugLevelMap level)"

subsection \<open>\<^verbatim>\<open>Load\<close> (lines 80--100)\<close>

text \<open>
  The object behind the interface value \<^verbatim>\<open>c\<close>: \<open>dyn\<close> is what \<^verbatim>\<open>reflect.ValueOf(c)\<close>
  sees (for a well-formed call a pointer to the owner's struct), the \<^verbatim>\<open>Configterface\<close>
  part is what its methods read and write, and \<open>tasks\<close> counts the background reload tasks
  that \<^verbatim>\<open>ListenForSignals\<close> has started for it. The file name, the listening flag and the
  mutex are unexported fields, out of the reach of a decoder, so they are kept apart from
  \<open>dyn\<close>, which holds the fields a decoder can write.
\<close>

record target = Configterface +
  dyn :: rval
  tasks :: nat

text \<open>
  The libraries \<^verbatim>\<open>Load\<close> calls. \<^verbatim>\<open>ioutil.ReadFile\<close> yields the bytes, or \<open>None\<close> when
  it returns an error. A decoder is given the pointer \<^verbatim>\<open>c\<close> and writes through it: it
  maps the value pointed to onto the decoded value and may return an error, in which case
  the value is whatever the decoder had written so far.
\<close>

record collab =
  ioutil_ReadFile :: "string \<Rightarrow> string option"
  yaml_Unmarshal :: "string \<Rightarrow> rval \<Rightarrow> error option \<times> rval"
  env_Parse :: "rval \<Rightarrow> error option \<times> rval"

text \<open>
  How a call ends: it returns (with Go's \<^verbatim>\<open>error\<close>, \<open>None\<close> for nil), it panics, or it
  waits for a mutex that is held.
\<close>

datatype outcome = Return "error option" | Panic string | Blocked

fun outcome_of :: "string + error option \<Rightarrow> outcome" where
  "outcome_of (Inl p) = Panic p"
| "outcome_of (Inr err) = Return err"

text \<open>The calls a run makes, in order.\<close>

datatype event = EGetFilename | EReadFile string | ELock | EUnmarshal | EParse
  | EfindMissingRequiredFields | EUnlock

definition nil_dereference :: string where
  "nil_dereference = ''runtime error: invalid memory address or nil pointer dereference''"

text \<open>
  Lines 93--99, followed by the deferred \<^verbatim>\<open>c.Unlock()\<close>, which also runs when
  \<^verbatim>\<open>findMissingRequiredFields\<close> panics. \<open>v\<close> is the value \<^verbatim>\<open>c\<close> points to at line 93.
\<close>

definition Load_env :: "collab \<Rightarrow> target \<Rightarrow> rval \<Rightarrow> event list \<Rightarrow> outcome \<times> target \<times> event list"
where
  "Load_env w c v evs =
     (case env_Parse w v of
        (Some err, v') \<Rightarrow>
          (Return (Some err), Unlock (c\<lparr>dyn := VPtr (Some v')\<rparr>), evs @ [EParse, EUnlock])
      | (None, v') \<Rightarrow>
          (outcome_of (findMissingRequiredFields (VPtr (Some v'))),
           Unlock (c\<lparr>dyn := VPtr (Some v')\<rparr>),
           evs @ [EParse, EfindMissingRequiredFields, EUnlock]))"

text \<open>
  \<^verbatim>\<open>Load\<close> returns how the call ends, the object after the call and the calls made.
  The methods of \<^verbatim>\<open>Config\<close> have pointer receivers and read through them, so
  \<^verbatim>\<open>c.GetFilename()\<close> on a nil pointer panics.
\<close>

definition Load :: "collab \<Rightarrow> target \<Rightarrow> outcome \<times> target \<times> event list" where
  "Load w c =
     (if Kind (dyn c) \<noteq> KPtr then (Panic ''Load only accepts pointers to structs'', c, [])
      else case dyn c of
        VPtr (Some v) \<Rightarrow>
          (let fname = GetFilename c;
               r = ioutil_ReadFile w fname;
               evs = [EGetFilename, EReadFile fname]
           in if Mutex c then (Blocked, c, evs)
              else let c1 = Lock c; evs1 = evs @ [ELock]
                   in (case r of
                         Some data \<Rightarrow>
                           (case yaml_Unmarshal w data v of
                              (Some err, v1) \<Rightarrow>
                                (Return (Some err), Unlock (c1\<lparr>dyn := VPtr (Some v1)\<rparr>),
                                 evs1 @ [EUnmarshal, EUnlock])
                            | (None, v1) \<Rightarrow> Load_env w c1 v1 (evs1 @ [EUnmarshal]))
                       | None \<Rightarrow> Load_env w c1 v evs1))
      | _ \<Rightarrow> (Panic nil_dereference, c, [EGetFilename]))"

subsection \<open>\<^verbatim>\<open>ListenForSignals\<close> (lines 102--123)\<close>

text \<open>
  The call returns nothing; \<open>Return None\<close> stands for its return. Starting the goroutine
  that waits for SIGHUP and calls \<^verbatim>\<open>Load\<close> adds one to \<open>tasks\<close>.
\<close>

definition ListenForSignals :: "target \<Rightarrow> outcome \<times> target" where
  "ListenForSignals c =
     (if Kind (dyn c) \<noteq> KPtr
      then (Panic ''ListenForSignals only accepts pointers to structs'', c)
      else case dyn c of
        VPtr (Some v) \<Rightarrow>
          (if Mutex c then (Blocked, c)
           else let c1 = Lock c
                in if IsListening c1 then (Return None, Unlock c1)
                   else let c2 = SetListening c1 True
                        in (Return None, Unlock (c2\<lparr>tasks := Suc (tasks c2)\<rparr>)))
      | _ \<Rightarrow> (Panic nil_dereference, c))"

subsection \<open>Reading a field, and a decoder to run the model on\<close>

text \<open>The value of the field of a struct with a given name.\<close>

fun FieldByName :: "string \<Rightarrow> rval \<Rightarrow> rval option" where
  "FieldByName n (VStruct fs) = map_of (map (\<lambda>(f, x). (Name f, x)) fs) n"
| "FieldByName n _ = None"

text \<open>The same, through the pointer held by a target.\<close>

definition target_field :: "string \<Rightarrow> target \<Rightarrow> rval option" where
  "target_field n c = (case dyn c of VPtr (Some v) \<Rightarrow> FieldByName n v | _ \<Rightarrow> None)"

text \<open>
  An example of a decoder: it writes the values it was given for the fields it names into
  the struct, leaves every other field alone and reports no error.
\<close>

fun assign :: "(string \<times> rval) list \<Rightarrow> rval \<Rightarrow> rval" where
  "assign kvs (VStruct fs) =
     VStruct (map (\<lambda>(f, x). (f, case map_of kvs (Name f) of Some y \<Rightarrow> y | None \<Rightarrow> x)) fs)"
| "assign kvs v = v"

definition decoder :: "(string \<times> rval) list \<Rightarrow> rval \<Rightarrow> error option \<times> rval" where
  "decoder kvs v = (None, assign kvs v)"

subsection \<open>The properties, in the words of the specification\<close>

text \<open>
  The violation set of a struct: the names of the fields tagged \<^verbatim>\<open>required:"true"\<close>
  that \<^verbatim>\<open>isZero\<close> judges unset, in the order of declaration.
\<close>

definition violations :: "flag \<Rightarrow> (StructField \<times> rval) list \<Rightarrow> string list" where
  "violations fl fs =
     map (\<lambda>(f, x). Name f)
       (filter (\<lambda>(f, x). Tag_Get (Tag f) ''required'' = ''true''
                         \<and> isZero (Field_flag fl f) x = Inr True) fs)"

text \<open>
  Every step of a run happens while the guard is held: \<open>held\<close> says whether it is held
  before the first call of the list.
\<close>

fun guarded :: "bool \<Rightarrow> event list \<Rightarrow> bool" where
  "guarded held [] = True"
| "guarded held (ELock # evs) = guarded True evs"
| "guarded held (EUnlock # evs) = guarded False evs"
| "guarded held (_ # evs) = (held \<and> guarded held evs)"

text \<open>
  The rank of a debug level under error < warning < info < verbose, with every other string
  at the rank of \<^verbatim>\<open>error\<close>.
\<close>

definition rank :: "string \<Rightarrow> nat" where
  "rank l = (if l = ''warning'' then 1 else if l = ''info'' then 2
             else if l = ''verbose'' then 3 else 0)"

text \<open>
  The file step of a run of \<^verbatim>\<open>Load\<close> on a target that points to \<open>v\<close> (lines 85 and
  88--92): the error of the file decoder, if it was called and failed, and the struct after
  the step, which is \<open>v\<close> itself when the file could not be read.
\<close>

definition file_step :: "collab \<Rightarrow> target \<Rightarrow> rval \<Rightarrow> error option \<times> rval" where
  "file_step w c v =
     (case ioutil_ReadFile w (GetFilename c) of
        None \<Rightarrow> (None, v)
      | Some data \<Rightarrow> yaml_Unmarshal w data v)"

subsection \<open>A configuration to run the model on\<close>

text \<open>
  A struct with a required \<^verbatim>\<open>Port\<close>, an optional \<^verbatim>\<open>Timeout\<close> and a
  \<^verbatim>\<open>Host\<close> with a default, a file that sets \<^verbatim>\<open>Port\<close> and \<^verbatim>\<open>Timeout\<close>, and an
  environment that sets \<^verbatim>\<open>Port\<close>.
\<close>

definition example_struct :: rval where
  "example_struct = VStruct
     [(\<lparr>Name = ''Port'',
        Tag = [(''yaml'', ''port''), (''env'', ''PORT''), (''required'', ''true'')],
        Anonymous = False\<rparr>, VInt 0),
      (\<lparr>Name = ''Timeout'', Tag = [(''yaml'', ''timeout''), (''env'', ''TIMEOUT'')],
        Anonymous = False\<rparr>, VInt 0),
      (\<lparr>Name = ''Host'', Tag = [(''yaml'', ''host''), (''env'', ''HOST'')],
        Anonymous = False\<rparr>, VString ''localhost'')]"

definition example_target :: target where
  "example_target = \<lparr>filename = ''config.yaml'', listening = False, Mutex = False,
     dyn = VPtr (Some example_struct), tasks = 0\<rparr>"

text \<open>In this world the decoders write fixed values, whatever bytes and struct they get.\<close>

definition example_world :: collab where
  "example_world = \<lparr>
     ioutil_ReadFile = (\<lambda>f. if f = ''config.yaml'' then Some ''port: 80, timeout: 5'' else None),
     yaml_Unmarshal = (\<lambda>data. decoder [(''Port'', VInt 80), (''Timeout'', VInt 5)]),
     env_Parse = decoder [(''Port'', VInt 8080)]\<rparr>"

text \<open>
  Decoders that read what they are given, the way the two libraries do: a field takes the
  value that the source has under the key named by the field's \<^verbatim>\<open>yaml\<close> or \<^verbatim>\<open>env\<close>
  tag, and keeps its value when the source has none. The file decoder fails on bytes that
  are not one of the documents it knows, and puts a document, a mapping, into a struct
  only; the environment decoder accepts a pointer to a struct only, as \<^verbatim>\<open>env.Parse\<close>
  does.
\<close>

fun decode_fields :: "string \<Rightarrow> (string \<times> rval) list \<Rightarrow> rval \<Rightarrow> rval" where
  "decode_fields key src (VStruct fs) =
     VStruct (map (\<lambda>(f, x). (f, case map_of src (Tag_Get (Tag f) key) of
                                    Some y \<Rightarrow> y
                                  | None \<Rightarrow> x)) fs)"
| "decode_fields key src v = v"

definition yaml_decoder ::
  "(string \<times> (string \<times> rval) list) list \<Rightarrow> string \<Rightarrow> rval \<Rightarrow> error option \<times> rval"
where
  "yaml_decoder docs data v =
     (case map_of docs data of
        None \<Rightarrow> (Some (yamlError ''yaml: cannot parse the document''), v)
      | Some doc \<Rightarrow>
          if Kind v = KStruct then (None, decode_fields ''yaml'' doc v)
          else (Some (yamlError ''yaml: cannot unmarshal a mapping into the target''), v))"

definition env_decoder :: "(string \<times> rval) list \<Rightarrow> rval \<Rightarrow> error option \<times> rval" where
  "env_decoder vars v =
     (if Kind v = KStruct then (None, decode_fields ''env'' vars v)
      else (Some (envError ''Expected a pointer to a Struct''), v))"

definition tagged_world :: collab where
  "tagged_world = \<lparr>
     ioutil_ReadFile = (\<lambda>f. if f = ''config.yaml'' then Some ''port: 80, timeout: 5'' else None),
     yaml_Unmarshal =
       yaml_decoder [(''port: 80, timeout: 5'', [(''port'', VInt 80), (''timeout'', VInt 5)])],
     env_Parse = env_decoder [(''PORT'', VInt 8080)]\<rparr>"

text \<open>A struct whose only field is required, unexported and empty.\<close>

definition secret_struct :: rval where
  "secret_struct = VStruct
     [(\<lparr>Name = ''secret'', Tag = [(''required'', ''true'')], Anonymous = False\<rparr>, VString [])]"

section \<open>The required-field validator\<close>

lemmas flag_defs = Field_flag_def IsExported_def Elem_flag_def ValueOf_flag_def flagRO_def
  CanSet_def Index_flag_def

subsection \<open>Following pointers\<close>

lemma loop_ptrs:
  "findMissingRequiredFields_loop fl (((\<lambda>x. VPtr (Some x)) ^^ n) v) =
   findMissingRequiredFields_loop (if n = 0 then fl else Elem_flag fl) v"
proof (induction n arbitrary: fl)
  case 0
  then show ?case by simp
next
  case (Suc n)
  have "((\<lambda>x. VPtr (Some x)) ^^ Suc n) v = VPtr (Some (((\<lambda>x. VPtr (Some x)) ^^ n) v))"
    by simp
  then show ?case using Suc[of "Elem_flag fl"] by (simp add: Elem_flag_def)
qed

lemma loop_other:
  "Kind v \<notin> {KStruct, KPtr} \<Longrightarrow>
   findMissingRequiredFields_loop fl v = Inr (Some (errorString ''Not a struct!''))"
  by (cases v) simp_all

text \<open>
  C7, as the spec words it: the validator follows exactly one level of indirection, and fails
  with \<^verbatim>\<open>NotAnAggregate\<close> when what it finds after that one step is not a struct. The
  code loops instead: behind two pointers it still reaches the struct and succeeds, and a
  struct passed with no pointer at all is validated too.
\<close>

theorem findMissingRequiredFields_two_levels:
  "findMissingRequiredFields (VPtr (Some (VPtr (Some (VStruct []))))) = Inr None
   \<and> findMissingRequiredFields (VStruct []) = Inr None"
  by (simp add: findMissingRequiredFields_def)

text \<open>
  C7, amended: the validator follows every level of indirection, none or more, until it
  reaches a value that is not a pointer. It returns the error \<^verbatim>\<open>nil pointer!\<close> when a
  pointer on the way is nil, the error \<^verbatim>\<open>Not a struct!\<close> when the value reached is not a
  struct, and otherwise scans the struct it reached (addressable as soon as one pointer was
  followed). Both errors are returned values.
\<close>

theorem findMissingRequiredFields_indirections:
  "findMissingRequiredFields (((\<lambda>x. VPtr (Some x)) ^^ n) (VPtr None))
     = Inr (Some (errorString ''nil pointer!''))
   \<and> (Kind v \<notin> {KStruct, KPtr} \<longrightarrow>
        findMissingRequiredFields (((\<lambda>x. VPtr (Some x)) ^^ n) v)
          = Inr (Some (errorString ''Not a struct!'')))
   \<and> findMissingRequiredFields (((\<lambda>x. VPtr (Some x)) ^^ n) (VStruct fs))
       = findMissingRequiredFields_loop (ValueOf_flag\<lparr>flagAddr := 0 < n\<rparr>) (VStruct fs)"
proof (intro conjI impI)
  show "findMissingRequiredFields (((\<lambda>x. VPtr (Some x)) ^^ n) (VPtr None))
     = Inr (Some (errorString ''nil pointer!''))"
    by (simp add: findMissingRequiredFields_def loop_ptrs)
next
  assume "Kind v \<notin> {KStruct, KPtr}"
  then show "findMissingRequiredFields (((\<lambda>x. VPtr (Some x)) ^^ n) v)
          = Inr (Some (errorString ''Not a struct!''))"
    by (simp add: findMissingRequiredFields_def loop_ptrs loop_other)
next
  have "(if n = 0 then ValueOf_flag else Elem_flag ValueOf_flag)
          = ValueOf_flag\<lparr>flagAddr := 0 < n\<rparr>"
    by (simp add: Elem_flag_def ValueOf_flag_def)
  then show "findMissingRequiredFields (((\<lambda>x. VPtr (Some x)) ^^ n) (VStruct fs))
       = findMissingRequiredFields_loop (ValueOf_flag\<lparr>flagAddr := 0 < n\<rparr>) (VStruct fs)"
    unfolding findMissingRequiredFields_def loop_ptrs
    by (rule arg_cong2[where f=findMissingRequiredFields_loop, OF _ refl])
qed

theorem findMissingRequiredFields_indirections_witness:
  "Kind (VInt 7) \<notin> {KStruct, KPtr}
   \<and> findMissingRequiredFields (VPtr (Some (VPtr (Some (VInt 7)))))
       = Inr (Some (errorString ''Not a struct!''))"
  using findMissingRequiredFields_indirections [of 2 "VInt 7"]
  by (simp add: numeral_2_eq_2)

subsection \<open>The zero-value inspector\<close>

text \<open>
  On a value that was not reached through an unexported field \<^verbatim>\<open>isZero\<close> never panics:
  the struct case skips the fields that cannot be set, and the elements of an array carry
  the flags of the array.
\<close>

lemma isZero_no_panic:
  "\<not> flagRO fl \<Longrightarrow> \<exists>z. isZero fl x = Inr z"
  "\<not> flagRO fl \<Longrightarrow> \<exists>z. isZero_Array fl b xs = Inr z"
  "\<exists>z. isZero_Struct fl b fs = Inr z"
proof (induction fl x and fl b xs and fl b fs rule: isZero_isZero_Array_isZero_Struct.induct)
  case (4 fl xs)
  then show ?case by (simp add: Index_flag_def flagRO_def)
next
  case (13 fl z x xs)
  then show ?case by (auto split: sum.splits)
next
  case (15 fl z f x fs)
  show ?case
  proof (cases "CanSet (Field_flag fl f)")
    case False
    then show ?thesis using 15 by simp
  next
    case cs: True
    show ?thesis
    proof (cases z)
      case False
      then show ?thesis using 15 cs by simp
    next
      case True
      from cs have "\<not> flagRO (Field_flag fl f)" by (simp add: CanSet_def)
      with 15(1)[OF cs True] obtain b where b: "isZero (Field_flag fl f) x = Inr b" by blast
      from 15(2)[OF cs True b] show ?thesis using cs True b by simp
    qed
  qed
qed simp_all

text \<open>A field that \<^verbatim>\<open>isZero\<close> judges set leaves the scan as it would be without it.\<close>

lemma scanFields_skip:
  "isZero (Field_flag fl f) x = Inr False \<Longrightarrow>
   scanFields fl acc (fs1 @ (f, x) # fs2) = scanFields fl acc (fs1 @ fs2)"
proof (induction fs1 arbitrary: acc)
  case Nil
  then show ?case by simp
next
  case (Cons a fs1)
  obtain g y where a: "a = (g, y)" by (cases a)
  show ?case using Cons by (simp add: a split: sum.splits)
qed

text \<open>
  C4: a pointer, map, slice or function is judged unset exactly when it is nil, whatever it
  points to or holds, and a field of such a kind that is not nil is never reported: the
  validation of a struct with that field is the validation of the struct without it.
\<close>

theorem isZero_reference_kinds:
  assumes "Kind x \<in> {KPtr, KMap, KSlice, KFunc}"
  shows "isZero fl x = Inr (x \<in> {VPtr None, VMap None, VSlice None, VFunc None})
       \<and> (x \<notin> {VPtr None, VMap None, VSlice None, VFunc None} \<longrightarrow>
            findMissingRequiredFields (VPtr (Some (VStruct (fs1 @ (f, x) # fs2))))
              = findMissingRequiredFields (VPtr (Some (VStruct (fs1 @ fs2)))))"
proof -
  have z: "isZero fl' x = Inr (x \<in> {VPtr None, VMap None, VSlice None, VFunc None})" for fl'
    using assms by (cases x) auto
  show ?thesis
  proof (intro conjI impI)
    show "isZero fl x = Inr (x \<in> {VPtr None, VMap None, VSlice None, VFunc None})"
      by (rule z)
  next
    assume "x \<notin> {VPtr None, VMap None, VSlice None, VFunc None}"
    then have "isZero (Field_flag (Elem_flag ValueOf_flag) f) x = Inr False"
      using z by simp
    then show "findMissingRequiredFields (VPtr (Some (VStruct (fs1 @ (f, x) # fs2))))
              = findMissingRequiredFields (VPtr (Some (VStruct (fs1 @ fs2))))"
      by (simp add: findMissingRequiredFields_def scanFields_skip)
  qed
qed

theorem isZero_reference_kinds_witness:
  "Kind (VPtr (Some (VString ''''))) \<in> {KPtr, KMap, KSlice, KFunc}
   \<and> VPtr (Some (VString '''')) \<notin> {VPtr None, VMap None, VSlice None, VFunc None}
   \<and> isZero ValueOf_flag (VPtr (Some (VString ''''))) = Inr False
   \<and> findMissingRequiredFields (VPtr (Some (VStruct
        [(\<lparr>Name = ''Host'', Tag = [(''required'', ''true'')], Anonymous = False\<rparr>,
          VPtr (Some (VString '''')))]))) = Inr None"
  using isZero_reference_kinds [of "VPtr (Some (VString ''''))" ValueOf_flag "[]"
      "\<lparr>Name = ''Host'', Tag = [(''required'', ''true'')], Anonymous = False\<rparr>" "[]"]
  by (simp add: findMissingRequiredFields_def)

subsection \<open>The violation set\<close>

lemma scanFields_violations:
  assumes "\<forall>(f, x) \<in> set fs. Tag_Get (Tag f) ''required'' = ''true''
             \<longrightarrow> \<not> flagRO (Field_flag fl f)"
  shows "scanFields fl acc fs =
     Inr (if violations fl fs = [] then acc
          else Some ((case acc of None \<Rightarrow> [] | Some m \<Rightarrow> m) @ violations fl fs))"
  using assms
proof (induction fs arbitrary: acc)
  case Nil
  then show ?case by (simp add: violations_def)
next
  case (Cons a fs)
  obtain f x where a: "a = (f, x)" by (cases a)
  show ?case
  proof (cases "Tag_Get (Tag f) ''required'' = ''true''")
    case False
    then show ?thesis using Cons by (simp add: a violations_def)
  next
    case True
    with Cons.prems a have "\<not> flagRO (Field_flag fl f)" by simp
    then obtain z where z: "isZero (Field_flag fl f) x = Inr z"
      using isZero_no_panic(1) by blast
    show ?thesis
    proof (cases z)
      case False
      then show ?thesis using Cons True z by (simp add: a violations_def)
    next
      case tz: True
      have ih: "scanFields fl (append_slice acc (Name f)) fs =
        Inr (if violations fl fs = [] then append_slice acc (Name f)
             else Some ((case append_slice acc (Name f) of None \<Rightarrow> [] | Some m \<Rightarrow> m)
                        @ violations fl fs))"
        using Cons by simp
      have v: "violations fl ((f, x) # fs) = Name f # violations fl fs"
        using True z tz by (simp add: violations_def)
      show ?thesis using True z tz ih unfolding a by (cases acc) (simp_all add: v)
    qed
  qed
qed

text \<open>
  When every required field is exported, the validator returns the violation set, in the
  order of declaration, and returns no error exactly when the set is empty.
\<close>

lemma findMissingRequiredFields_violations:
  assumes "\<forall>(f, x) \<in> set fs. Tag_Get (Tag f) ''required'' = ''true'' \<longrightarrow> IsExported (Name f)"
  shows "findMissingRequiredFields (VPtr (Some (VStruct fs))) =
     Inr (if violations (Elem_flag ValueOf_flag) fs = [] then None
          else Some (MissingRequiredStructFields (violations (Elem_flag ValueOf_flag) fs)))"
proof -
  have "\<forall>(f, x) \<in> set fs. Tag_Get (Tag f) ''required'' = ''true'' \<longrightarrow>
          \<not> flagRO (Field_flag (Elem_flag ValueOf_flag) f)"
    using assms by (auto simp: flag_defs)
  from scanFields_violations[OF this, of None]
  show ?thesis by (simp add: findMissingRequiredFields_def)
qed

section \<open>Load\<close>

lemmas Load_defs = Load_def Load_env_def Let_def GetFilename_def Lock_def Unlock_def

lemmas example_defs = example_world_def example_target_def example_struct_def decoder_def

subsection \<open>The example decoder\<close>

lemma Kind_assign: "Kind (assign kvs s) = Kind s"
  by (cases s) simp_all

lemma map_of_assign:
  "map_of (map (\<lambda>(f, x). (Name f, x))
      (map (\<lambda>(f, x). (f, case map_of kvs (Name f) of Some y \<Rightarrow> y | None \<Rightarrow> x)) fs)) n
   = (case map_of (map (\<lambda>(f, x). (Name f, x)) fs) n of
        None \<Rightarrow> None
      | Some old \<Rightarrow> Some (case map_of kvs n of Some y \<Rightarrow> y | None \<Rightarrow> old))"
  by (induction fs) (auto split: option.splits)

lemma FieldByName_assign:
  "FieldByName n (assign kvs s) =
     (case FieldByName n s of
        None \<Rightarrow> None
      | Some old \<Rightarrow> Some (case map_of kvs n of Some y \<Rightarrow> y | None \<Rightarrow> old))"
  by (cases s) (simp_all add: map_of_assign del: map_map)

subsection \<open>Validation of the decoded struct\<close>

lemma Load_validates_decoded:
  assumes "dyn c = VPtr (Some v)" and "\<not> Mutex c"
    and "EfindMissingRequiredFields \<in> set (snd (snd (Load w c)))"
  shows "fst (Load w c) = outcome_of (findMissingRequiredFields (dyn (fst (snd (Load w c)))))"
  using assms by (auto simp: Load_defs split: option.splits prod.splits)

text \<open>
  A run that reaches the validation, on a struct whose required fields are all exported,
  returns the violation set of the decoded struct.
\<close>

lemma Load_reports_violations:
  assumes "dyn c = VPtr (Some v)" and "\<not> Mutex c"
    and "EfindMissingRequiredFields \<in> set (snd (snd (Load w c)))"
    and "dyn (fst (snd (Load w c))) = VPtr (Some (VStruct fs))"
    and "\<forall>(f, x) \<in> set fs. Tag_Get (Tag f) ''required'' = ''true'' \<longrightarrow> IsExported (Name f)"
  shows "fst (Load w c) =
     Return (if violations (Elem_flag ValueOf_flag) fs = [] then None
             else Some (MissingRequiredStructFields (violations (Elem_flag ValueOf_flag) fs)))"
  using Load_validates_decoded[OF assms(1-3)] findMissingRequiredFields_violations[OF assms(5)]
  by (simp add: assms(4))

lemma Load_example:
  "fst (Load example_world example_target) = Return None
   \<and> fst (Load (example_world\<lparr>env_Parse := decoder []\<rparr>)
            (example_target\<lparr>filename := ''missing.yaml''\<rparr>))
       = Return (Some (MissingRequiredStructFields [''Port'']))"
  by (simp add: Load_defs example_defs findMissingRequiredFields_def Tag_Get_def flag_defs)

text \<open>
  C1: a required field left at its zero value makes \<^verbatim>\<open>Load\<close> return
  \<^verbatim>\<open>MissingRequiredStructFields\<close> with the names of those fields, which is what the
  lemmas above give for exported fields. An unexported required field is not reported:
  \<^verbatim>\<open>findMissingRequiredFields\<close> passes it to \<^verbatim>\<open>isZero\<close> without the \<^verbatim>\<open>CanSet\<close>
  test that \<^verbatim>\<open>isZero\<close> makes before it descends into a field, a string reaches
  \<^verbatim>\<open>v.Interface()\<close>, and \<^verbatim>\<open>Load\<close> panics although the field holds the empty string.
\<close>

theorem Load_required_unexported_panics:
  "equals_Zero (VString [])
   \<and> fst (Load example_world (example_target\<lparr>dyn := VPtr (Some secret_struct)\<rparr>))
       = Panic Interface_panic"
  by (simp add: Load_defs example_defs secret_struct_def findMissingRequiredFields_def
      Tag_Get_def flag_defs)

subsection \<open>The order of the two decoders\<close>

text \<open>
  C2: when the file is read and decoded, the environment decoder runs after the file
  decoder and on its result. A field that the file gave a value and that the environment
  decoder sets holds the environment's value after \<^verbatim>\<open>Load\<close>; a field that the
  environment decoder leaves alone holds the value it had after the file was decoded.
\<close>

theorem Load_env_after_file:
  assumes "dyn c = VPtr (Some v)" and "\<not> Mutex c"
    and "ioutil_ReadFile w (GetFilename c) = Some data"
    and "yaml_Unmarshal w data v = (None, v1)"
  shows "(\<exists>evs evs'. snd (snd (Load w c)) = evs @ EUnmarshal # EParse # evs'
            \<and> EParse \<notin> set evs)
       \<and> dyn (fst (snd (Load w c))) = VPtr (Some (snd (env_Parse w v1)))
       \<and> (FieldByName n v1 = Some y
            \<and> (\<forall>s. FieldByName n s \<noteq> None \<longrightarrow> FieldByName n (snd (env_Parse w s)) = Some x)
          \<longrightarrow> target_field n (fst (snd (Load w c))) = Some x)
       \<and> ((\<forall>s. FieldByName n (snd (env_Parse w s)) = FieldByName n s) \<longrightarrow>
             target_field n (fst (snd (Load w c))) = FieldByName n v1)"
proof -
  obtain e v2 where p: "env_Parse w v1 = (e, v2)" by (cases "env_Parse w v1")
  have d: "dyn (fst (snd (Load w c))) = VPtr (Some v2)"
    using assms p by (cases e) (simp_all add: Load_defs)
  have ev: "snd (snd (Load w c)) =
      [EGetFilename, EReadFile (filename c), ELock] @ EUnmarshal # EParse #
      (if e = None then [EfindMissingRequiredFields, EUnlock] else [EUnlock])"
    using assms p by (cases e) (simp_all add: Load_defs)
  have "\<exists>evs evs'. snd (snd (Load w c)) = evs @ EUnmarshal # EParse # evs' \<and> EParse \<notin> set evs"
    unfolding ev by (intro exI conjI, rule refl) simp
  moreover have "dyn (fst (snd (Load w c))) = VPtr (Some (snd (env_Parse w v1)))"
    using d p by simp
  moreover have "FieldByName n v1 = Some y
            \<and> (\<forall>s. FieldByName n s \<noteq> None \<longrightarrow> FieldByName n (snd (env_Parse w s)) = Some x)
          \<longrightarrow> target_field n (fst (snd (Load w c))) = Some x"
    using d p by (auto simp: target_field_def dest: spec[of _ v1])
  moreover have "(\<forall>s. FieldByName n (snd (env_Parse w s)) = FieldByName n s) \<longrightarrow>
             target_field n (fst (snd (Load w c))) = FieldByName n v1"
    using d p by (auto simp: target_field_def dest: spec[of _ v1])
  ultimately show ?thesis by blast
qed

theorem Load_env_after_file_witness:
  "dyn example_target = VPtr (Some example_struct) \<and> \<not> Mutex example_target
   \<and> ioutil_ReadFile example_world (GetFilename example_target) = Some ''port: 80, timeout: 5''
   \<and> FieldByName ''Port''
        (snd (yaml_Unmarshal example_world ''port: 80, timeout: 5'' example_struct))
       = Some (VInt 80)
   \<and> target_field ''Port'' (fst (snd (Load example_world example_target))) = Some (VInt 8080)
   \<and> target_field ''Timeout'' (fst (snd (Load example_world example_target))) = Some (VInt 5)"
proof -
  define v1 where "v1 = assign [(''Port'', VInt 80), (''Timeout'', VInt 5)] example_struct"
  have h1: "dyn example_target = VPtr (Some example_struct)"
    by (simp add: example_target_def)
  have h2: "\<not> Mutex example_target"
    by (simp add: example_target_def)
  have h3: "ioutil_ReadFile example_world (GetFilename example_target)
              = Some ''port: 80, timeout: 5''"
    by (simp add: example_world_def example_target_def GetFilename_def)
  have h4: "yaml_Unmarshal example_world ''port: 80, timeout: 5'' example_struct = (None, v1)"
    by (simp add: example_world_def decoder_def v1_def)
  have port: "FieldByName ''Port'' v1 = Some (VInt 80)"
    by (simp add: v1_def example_struct_def)
  have timeout: "FieldByName ''Timeout'' v1 = Some (VInt 5)"
    by (simp add: v1_def example_struct_def)
  have sets: "\<forall>s. FieldByName ''Port'' s \<noteq> None \<longrightarrow>
      FieldByName ''Port'' (snd (env_Parse example_world s)) = Some (VInt 8080)"
    by (auto simp: example_world_def decoder_def FieldByName_assign)
  have leaves: "\<forall>s. FieldByName ''Timeout'' (snd (env_Parse example_world s))
      = FieldByName ''Timeout'' s"
    by (auto simp: example_world_def decoder_def FieldByName_assign split: option.splits)
  from Load_env_after_file [OF h1 h2 h3 h4, where n = "''Port''" and y = "VInt 80"
      and x = "VInt 8080"] port sets
  have "target_field ''Port'' (fst (snd (Load example_world example_target))) = Some (VInt 8080)"
    by blast
  moreover from Load_env_after_file [OF h1 h2 h3 h4, where n = "''Timeout''"] leaves timeout
  have "target_field ''Timeout'' (fst (snd (Load example_world example_target)))
      = Some (VInt 5)"
    by simp
  ultimately show ?thesis using h1 h2 h3 h4 port by simp
qed

subsection \<open>A file that cannot be read\<close>

text \<open>
  C3: when \<^verbatim>\<open>ioutil.ReadFile\<close> fails, for whatever reason, \<^verbatim>\<open>Load\<close> reports nothing
  about it. The file decoder is not called (and \<^verbatim>\<open>Load\<close> does not depend on it), the
  environment decoder runs on the struct as it was, the validation runs if that decoder
  succeeds, and \<^verbatim>\<open>Load\<close> ends as these two steps end.
\<close>

theorem Load_unreadable_file:
  assumes "dyn c = VPtr (Some v)" and "\<not> Mutex c"
    and "ioutil_ReadFile w (GetFilename c) = None"
  shows "fst (Load w c) =
           (case fst (env_Parse w v) of
              Some err \<Rightarrow> Return (Some err)
            | None \<Rightarrow> outcome_of (findMissingRequiredFields (VPtr (Some (snd (env_Parse w v))))))
       \<and> dyn (fst (snd (Load w c))) = VPtr (Some (snd (env_Parse w v)))
       \<and> EUnmarshal \<notin> set (snd (snd (Load w c)))
       \<and> EParse \<in> set (snd (snd (Load w c)))
       \<and> (EfindMissingRequiredFields \<in> set (snd (snd (Load w c)))
            \<longleftrightarrow> fst (env_Parse w v) = None)
       \<and> Load (w\<lparr>yaml_Unmarshal := u\<rparr>) c = Load w c"
proof -
  obtain e v2 where p: "env_Parse w v = (e, v2)" by (cases "env_Parse w v")
  show ?thesis using assms p by (cases e) (simp_all add: Load_defs)
qed

theorem Load_unreadable_file_witness:
  "dyn (example_target\<lparr>filename := ''missing.yaml''\<rparr>) = VPtr (Some example_struct)
   \<and> \<not> Mutex (example_target\<lparr>filename := ''missing.yaml''\<rparr>)
   \<and> ioutil_ReadFile example_world (GetFilename (example_target\<lparr>filename := ''missing.yaml''\<rparr>))
       = None
   \<and> fst (Load example_world (example_target\<lparr>filename := ''missing.yaml''\<rparr>)) = Return None
   \<and> target_field ''Port''
        (fst (snd (Load example_world (example_target\<lparr>filename := ''missing.yaml''\<rparr>))))
       = Some (VInt 8080)
   \<and> EUnmarshal \<notin> set (snd (snd (Load example_world
                                   (example_target\<lparr>filename := ''missing.yaml''\<rparr>))))"
proof -
  let ?c = "example_target\<lparr>filename := ''missing.yaml''\<rparr>"
  have h1: "dyn ?c = VPtr (Some example_struct)" by (simp add: example_target_def)
  have h2: "\<not> Mutex ?c" by (simp add: example_target_def)
  have h3: "ioutil_ReadFile example_world (GetFilename ?c) = None"
    by (simp add: example_world_def example_target_def GetFilename_def)
  have p: "env_Parse example_world example_struct
             = (None, assign [(''Port'', VInt 8080)] example_struct)"
    by (simp add: example_world_def decoder_def)
  have ok: "findMissingRequiredFields
              (VPtr (Some (assign [(''Port'', VInt 8080)] example_struct))) = Inr None"
    by (simp add: example_struct_def findMissingRequiredFields_def Tag_Get_def flag_defs)
  from Load_unreadable_file [OF h1 h2 h3] p ok
  have "fst (Load example_world ?c) = Return None"
    and "dyn (fst (snd (Load example_world ?c)))
           = VPtr (Some (assign [(''Port'', VInt 8080)] example_struct))"
    and "EUnmarshal \<notin> set (snd (snd (Load example_world ?c)))"
    by simp_all
  then show ?thesis using h1 h2 h3
    by (simp add: target_field_def example_struct_def)
qed

subsection \<open>The guard\<close>

text \<open>
  C5, as the spec words it: every step of a load, the read of the file included, happens
  while the guard is held. In the code \<^verbatim>\<open>c.GetFilename()\<close> and \<^verbatim>\<open>ioutil.ReadFile\<close>
  (line 85) come before \<^verbatim>\<open>c.Lock()\<close> (line 86).
\<close>

theorem Load_reads_before_Lock:
  "\<not> guarded False (snd (snd (Load example_world example_target)))"
  by (simp add: Load_defs example_defs)

text \<open>
  C5, amended: \<^verbatim>\<open>Load\<close> reads the file name and the file first, without the guard, and
  then acquires the guard. The decoders and the validation, and nothing else, run between
  that \<^verbatim>\<open>Lock\<close> and one final \<^verbatim>\<open>Unlock\<close>, which is reached however the call ends after
  the guard was taken: on a returned error and on a panic of the validation as well. A
  call that finds the guard free leaves it free.
\<close>

theorem Load_guard_order:
  assumes "\<not> Mutex c"
  shows "\<not> Mutex (fst (snd (Load w c)))
       \<and> (dyn c = VPtr (Some v) \<longrightarrow>
            (\<exists>mid. snd (snd (Load w c))
                      = [EGetFilename, EReadFile (filename c), ELock] @ mid @ [EUnlock]
                  \<and> set mid \<subseteq> {EUnmarshal, EParse, EfindMissingRequiredFields}
                  \<and> guarded True (mid @ [EUnlock])))"
proof (intro conjI impI)
  show "\<not> Mutex (fst (snd (Load w c)))"
    using assms by (simp add: Load_defs split: rval.splits option.splits prod.splits)
next
  assume "dyn c = VPtr (Some v)"
  then show "\<exists>mid. snd (snd (Load w c))
                      = [EGetFilename, EReadFile (filename c), ELock] @ mid @ [EUnlock]
                  \<and> set mid \<subseteq> {EUnmarshal, EParse, EfindMissingRequiredFields}
                  \<and> guarded True (mid @ [EUnlock])"
    using assms by (auto simp: Load_defs split: option.splits prod.splits)
qed

theorem Load_guard_order_witness:
  "\<not> Mutex example_target \<and> dyn example_target = VPtr (Some example_struct)
   \<and> \<not> Mutex (fst (snd (Load example_world example_target)))
   \<and> (\<exists>mid. snd (snd (Load example_world example_target))
               = [EGetFilename, EReadFile ''config.yaml'', ELock] @ mid @ [EUnlock]
           \<and> set mid \<subseteq> {EUnmarshal, EParse, EfindMissingRequiredFields}
           \<and> guarded True (mid @ [EUnlock]))"
proof -
  have h1: "\<not> Mutex example_target" by (simp add: example_target_def)
  have h2: "dyn example_target = VPtr (Some example_struct)" by (simp add: example_target_def)
  have f: "filename example_target = ''config.yaml''" by (simp add: example_target_def)
  from Load_guard_order [OF h1, of example_world example_struct] h2 f
  show ?thesis using h1 by simp
qed

subsection \<open>Misuse\<close>

lemmas tagged_defs = tagged_world_def yaml_decoder_def env_decoder_def example_target_def
  example_struct_def

text \<open>
  C8, as the spec words it: \<^verbatim>\<open>NotAnAggregate\<close> is never a returned error, the operation
  aborts. In the code \<^verbatim>\<open>Load\<close> only tests that its argument is a pointer. With a
  pointer to an integer and no file, the environment decoder rejects the target and
  \<^verbatim>\<open>Load\<close> returns its error (lines 93--95) like any other: there is no panic, and the
  validator is not reached.
\<close>

theorem Load_not_a_struct_returned:
  "fst (Load tagged_world
         (example_target\<lparr>filename := ''missing.yaml'', dyn := VPtr (Some (VInt 7))\<rparr>))
     = Return (Some (envError ''Expected a pointer to a Struct''))
   \<and> EfindMissingRequiredFields \<notin> set (snd (snd (Load tagged_world
         (example_target\<lparr>filename := ''missing.yaml'', dyn := VPtr (Some (VInt 7))\<rparr>))))"
  by (simp add: Load_defs tagged_defs)

text \<open>
  C8, amended: an argument that is not a pointer makes \<^verbatim>\<open>Load\<close> and
  \<^verbatim>\<open>ListenForSignals\<close> panic. A pointer to a value that is not a struct does not. In a
  run whose decoders leave the kind of the target as it is, \<^verbatim>\<open>Load\<close> returns an
  ordinary error: the error of the file decoder if that decoder fails, else the error of
  the environment decoder if that one fails, and in both cases the validator is not
  reached; the validator's \<^verbatim>\<open>Not a struct!\<close> is returned only in a run where both
  decoders accept the target. \<^verbatim>\<open>ListenForSignals\<close> returns without any check of what the
  pointer points to.
\<close>

theorem misuse_outcomes:
  "(Kind (dyn c) \<noteq> KPtr \<longrightarrow>
      fst (Load w c) = Panic ''Load only accepts pointers to structs''
      \<and> fst (ListenForSignals c) = Panic ''ListenForSignals only accepts pointers to structs'')
   \<and> (dyn c = VPtr (Some v) \<and> \<not> Mutex c \<and> Kind v \<notin> {KStruct, KPtr}
        \<and> Kind (snd (file_step w c v)) = Kind v
        \<and> Kind (snd (env_Parse w (snd (file_step w c v)))) = Kind v
      \<longrightarrow> fst (Load w c) =
            Return (Some (case fst (file_step w c v) of
                            Some err \<Rightarrow> err
                          | None \<Rightarrow>
                              (case fst (env_Parse w (snd (file_step w c v))) of
                                 Some err \<Rightarrow> err
                               | None \<Rightarrow> errorString ''Not a struct!'')))
          \<and> (fst (file_step w c v) \<noteq> None
               \<or> fst (env_Parse w (snd (file_step w c v))) \<noteq> None
             \<longrightarrow> EfindMissingRequiredFields \<notin> set (snd (snd (Load w c))))
          \<and> fst (ListenForSignals c) = Return None)"
proof -
  have nonptr: "fst (Load w c) = Panic ''Load only accepts pointers to structs''
      \<and> fst (ListenForSignals c) = Panic ''ListenForSignals only accepts pointers to structs''"
    if "Kind (dyn c) \<noteq> KPtr"
    using that by (simp add: Load_def ListenForSignals_def)
  have ptr: "fst (Load w c) =
            Return (Some (case fst (file_step w c v) of
                            Some err \<Rightarrow> err
                          | None \<Rightarrow>
                              (case fst (env_Parse w (snd (file_step w c v))) of
                                 Some err \<Rightarrow> err
                               | None \<Rightarrow> errorString ''Not a struct!'')))
          \<and> (fst (file_step w c v) \<noteq> None
               \<or> fst (env_Parse w (snd (file_step w c v))) \<noteq> None
             \<longrightarrow> EfindMissingRequiredFields \<notin> set (snd (snd (Load w c))))
          \<and> fst (ListenForSignals c) = Return None"
    if a: "dyn c = VPtr (Some v)" "\<not> Mutex c" "Kind v \<notin> {KStruct, KPtr}"
      "Kind (snd (file_step w c v)) = Kind v"
      "Kind (snd (env_Parse w (snd (file_step w c v)))) = Kind v"
  proof -
    obtain e1 v1 where f: "file_step w c v = (e1, v1)" by (cases "file_step w c v")
    obtain e2 v2 where p: "env_Parse w v1 = (e2, v2)" by (cases "env_Parse w v1")
    have k2: "Kind v2 \<notin> {KStruct, KPtr}" using a f p by simp
    have val: "findMissingRequiredFields (VPtr (Some v2))
                 = Inr (Some (errorString ''Not a struct!''))"
      using loop_other[OF k2] by (simp add: findMissingRequiredFields_def)
    have lfs: "fst (ListenForSignals c) = Return None"
      using a by (simp add: ListenForSignals_def Let_def)
    show ?thesis
    proof (cases "ioutil_ReadFile w (filename c)")
      case None
      then have "e1 = None" "v1 = v" using f by (simp_all add: file_step_def GetFilename_def)
      then show ?thesis using a None f p val lfs
        by (cases e2) (simp_all add: Load_defs)
    next
      case (Some data)
      then have y: "yaml_Unmarshal w data v = (e1, v1)"
        using f by (simp add: file_step_def GetFilename_def)
      show ?thesis using a Some y f p val lfs
        by (cases e1; cases e2) (simp_all add: Load_defs)
    qed
  qed
  from nonptr ptr show ?thesis by blast
qed

theorem misuse_outcomes_witness:
  "Kind (dyn (example_target\<lparr>dyn := example_struct\<rparr>)) \<noteq> KPtr
   \<and> fst (Load tagged_world (example_target\<lparr>dyn := example_struct\<rparr>))
       = Panic ''Load only accepts pointers to structs''
   \<and> fst (ListenForSignals (example_target\<lparr>dyn := example_struct\<rparr>))
       = Panic ''ListenForSignals only accepts pointers to structs''
   \<and> dyn (example_target\<lparr>filename := ''missing.yaml'', dyn := VPtr (Some (VInt 7))\<rparr>)
       = VPtr (Some (VInt 7))
   \<and> \<not> Mutex (example_target\<lparr>filename := ''missing.yaml'', dyn := VPtr (Some (VInt 7))\<rparr>)
   \<and> Kind (VInt 7) \<notin> {KStruct, KPtr}
   \<and> file_step tagged_world
        (example_target\<lparr>filename := ''missing.yaml'', dyn := VPtr (Some (VInt 7))\<rparr>) (VInt 7)
       = (None, VInt 7)
   \<and> env_Parse tagged_world (VInt 7)
       = (Some (envError ''Expected a pointer to a Struct''), VInt 7)
   \<and> fst (Load tagged_world
            (example_target\<lparr>filename := ''missing.yaml'', dyn := VPtr (Some (VInt 7))\<rparr>))
       = Return (Some (envError ''Expected a pointer to a Struct''))
   \<and> EfindMissingRequiredFields \<notin> set (snd (snd (Load tagged_world
            (example_target\<lparr>filename := ''missing.yaml'', dyn := VPtr (Some (VInt 7))\<rparr>))))
   \<and> fst (ListenForSignals
            (example_target\<lparr>filename := ''missing.yaml'', dyn := VPtr (Some (VInt 7))\<rparr>))
       = Return None"
proof -
  let ?s = "example_target\<lparr>dyn := example_struct\<rparr>"
  let ?c = "example_target\<lparr>filename := ''missing.yaml'', dyn := VPtr (Some (VInt 7))\<rparr>"
  have a: "Kind (dyn ?s) \<noteq> KPtr"
    by (simp add: example_struct_def)
  have b: "dyn ?c = VPtr (Some (VInt 7))" "\<not> Mutex ?c" "Kind (VInt 7) \<notin> {KStruct, KPtr}"
    by (simp_all add: example_target_def)
  have f: "file_step tagged_world ?c (VInt 7) = (None, VInt 7)"
    by (simp add: file_step_def GetFilename_def tagged_world_def)
  have p: "env_Parse tagged_world (VInt 7)
             = (Some (envError ''Expected a pointer to a Struct''), VInt 7)"
    by (simp add: tagged_world_def env_decoder_def)
  from misuse_outcomes [of ?s tagged_world] a
  have 1: "fst (Load tagged_world ?s) = Panic ''Load only accepts pointers to structs''
     \<and> fst (ListenForSignals ?s) = Panic ''ListenForSignals only accepts pointers to structs''"
    by blast
  from misuse_outcomes [of ?c tagged_world "VInt 7"] b f p
  have 2: "fst (Load tagged_world ?c) = Return (Some (envError ''Expected a pointer to a Struct''))
     \<and> EfindMissingRequiredFields \<notin> set (snd (snd (Load tagged_world ?c)))
     \<and> fst (ListenForSignals ?c) = Return None"
    by simp
  from a b f p 1 2 show ?thesis by blast
qed

subsection \<open>What Load leaves alone\<close>

text \<open>
  C10: however \<^verbatim>\<open>Load\<close> ends, the file name, the listening flag and the number of
  reload tasks of the target are what they were. A field that the file step of the run
  leaves as it was, and that the environment decoder, if the run reaches it, leaves as it
  was in the struct it is given, holds after the call the value it had before; this is so
  for a default that neither source mentions. A call that runs no decoder (the argument is
  no pointer to a value, or the guard is held) returns the target as it was.
\<close>

theorem Load_frame:
  "filename (fst (snd (Load w c))) = filename c
   \<and> listening (fst (snd (Load w c))) = listening c
   \<and> tasks (fst (snd (Load w c))) = tasks c
   \<and> (dyn c = VPtr (Some v)
        \<and> FieldByName n (snd (file_step w c v)) = FieldByName n v
        \<and> (fst (file_step w c v) = None \<longrightarrow>
             FieldByName n (snd (env_Parse w (snd (file_step w c v))))
               = FieldByName n (snd (file_step w c v)))
      \<longrightarrow> target_field n (fst (snd (Load w c))) = target_field n c)
   \<and> ((\<forall>v'. dyn c \<noteq> VPtr (Some v')) \<or> Mutex c \<longrightarrow> fst (snd (Load w c)) = c)"
proof (intro conjI impI)
  show "filename (fst (snd (Load w c))) = filename c"
    by (simp add: Load_defs split: rval.splits option.splits prod.splits)
  show "listening (fst (snd (Load w c))) = listening c"
    by (simp add: Load_defs split: rval.splits option.splits prod.splits)
  show "tasks (fst (snd (Load w c))) = tasks c"
    by (simp add: Load_defs split: rval.splits option.splits prod.splits)
next
  assume "(\<forall>v'. dyn c \<noteq> VPtr (Some v')) \<or> Mutex c"
  then show "fst (snd (Load w c)) = c"
    by (auto simp: Load_defs split: rval.splits option.splits)
next
  assume a: "dyn c = VPtr (Some v)
        \<and> FieldByName n (snd (file_step w c v)) = FieldByName n v
        \<and> (fst (file_step w c v) = None \<longrightarrow>
             FieldByName n (snd (env_Parse w (snd (file_step w c v))))
               = FieldByName n (snd (file_step w c v)))"
  obtain e1 v1 where f: "file_step w c v = (e1, v1)" by (cases "file_step w c v")
  obtain e2 v2 where p: "env_Parse w v1 = (e2, v2)" by (cases "env_Parse w v1")
  from a f have v1: "FieldByName n v1 = FieldByName n v" by simp
  from a f p have v2: "e1 = None \<Longrightarrow> FieldByName n v2 = FieldByName n v" by simp
  show "target_field n (fst (snd (Load w c))) = target_field n c"
  proof (cases "Mutex c")
    case True
    then show ?thesis using a by (simp add: Load_defs)
  next
    case False
    show ?thesis
    proof (cases "ioutil_ReadFile w (filename c)")
      case None
      then have "e1 = None" "v1 = v" using f by (simp_all add: file_step_def GetFilename_def)
      then show ?thesis using a False None p v2
        by (cases e2) (simp_all add: Load_defs target_field_def)
    next
      case (Some data)
      then have y: "yaml_Unmarshal w data v = (e1, v1)"
        using f by (simp add: file_step_def GetFilename_def)
      show ?thesis using a False Some y p v1 v2
        by (cases e1; cases e2) (simp_all add: Load_defs target_field_def)
    qed
  qed
qed

theorem Load_frame_witness:
  "dyn example_target = VPtr (Some example_struct)
   \<and> fst (file_step tagged_world example_target example_struct) = None
   \<and> FieldByName ''Host'' (snd (file_step tagged_world example_target example_struct))
       = FieldByName ''Host'' example_struct
   \<and> FieldByName ''Host''
        (snd (env_Parse tagged_world (snd (file_step tagged_world example_target example_struct))))
       = FieldByName ''Host'' (snd (file_step tagged_world example_target example_struct))
   \<and> FieldByName ''Port'' (snd (file_step tagged_world example_target example_struct))
       = Some (VInt 80)
   \<and> filename (fst (snd (Load tagged_world example_target))) = ''config.yaml''
   \<and> \<not> listening (fst (snd (Load tagged_world example_target)))
   \<and> target_field ''Host'' (fst (snd (Load tagged_world example_target)))
       = Some (VString ''localhost'')
   \<and> target_field ''Port'' (fst (snd (Load tagged_world example_target))) = Some (VInt 8080)
   \<and> fst (snd (Load tagged_world (example_target\<lparr>Mutex := True\<rparr>)))
       = example_target\<lparr>Mutex := True\<rparr>"
proof -
  have d: "dyn example_target = VPtr (Some example_struct)"
    by (simp add: example_target_def)
  have f: "file_step tagged_world example_target example_struct
      = (None, decode_fields ''yaml'' [(''port'', VInt 80), (''timeout'', VInt 5)] example_struct)"
    by (simp add: file_step_def GetFilename_def tagged_defs)
  have h1: "FieldByName ''Host'' (snd (file_step tagged_world example_target example_struct))
       = FieldByName ''Host'' example_struct"
    unfolding f by (simp add: example_struct_def Tag_Get_def)
  have h2: "FieldByName ''Host''
        (snd (env_Parse tagged_world (snd (file_step tagged_world example_target example_struct))))
       = FieldByName ''Host'' (snd (file_step tagged_world example_target example_struct))"
    unfolding f by (simp add: tagged_defs Tag_Get_def)
  have port: "FieldByName ''Port'' (snd (file_step tagged_world example_target example_struct))
       = Some (VInt 80)"
    unfolding f by (simp add: example_struct_def Tag_Get_def)
  have b: "target_field ''Host'' example_target = Some (VString ''localhost'')"
    by (simp add: target_field_def example_target_def example_struct_def)
  have c: "filename example_target = ''config.yaml''" "\<not> listening example_target"
    by (simp_all add: example_target_def)
  have e: "target_field ''Port'' (fst (snd (Load tagged_world example_target)))
      = Some (VInt 8080)"
    by (simp add: Load_defs tagged_defs target_field_def Tag_Get_def)
  have m: "Mutex (example_target\<lparr>Mutex := True\<rparr>)" by simp
  from Load_frame [of tagged_world example_target example_struct "''Host''"] d f h1 h2 b c
  have 1: "filename (fst (snd (Load tagged_world example_target))) = ''config.yaml''
     \<and> \<not> listening (fst (snd (Load tagged_world example_target)))
     \<and> target_field ''Host'' (fst (snd (Load tagged_world example_target)))
         = Some (VString ''localhost'')"
    by simp
  from Load_frame [of tagged_world "example_target\<lparr>Mutex := True\<rparr>"] m
  have 2: "fst (snd (Load tagged_world (example_target\<lparr>Mutex := True\<rparr>)))
       = example_target\<lparr>Mutex := True\<rparr>"
    by blast
  from d f h1 h2 port e 1 2 show ?thesis by simp
qed

section \<open>The debug level\<close>

text \<open>
  C6, as the spec words it: an unknown current level ranks below every known level, so the
  comparison with a known level is false. In the code an unknown string indexes the map
  with a missing key and gets 0, the rank of \<^verbatim>\<open>error\<close>: the comparison with
  \<^verbatim>\<open>error\<close> is true.
\<close>

theorem DebugLevel_unknown_current:
  "DebugLevel \<lparr>filename = ''config.yaml'', listening = False, Mutex = False,
               Debug = ''bogus''\<rparr> ''error''"
  by (simp add: DebugLevel_def map_index_def debugLevelMap_def DebugError_def)

text \<open>
  C6, amended: the comparison returns whether the rank of the current level is at least
  the rank of the queried level under error < warning < info < verbose, where an unknown
  string, current or queried, has rank 0, the rank of \<^verbatim>\<open>error\<close>. So with an unknown
  current level the comparison is true exactly when the queried level is \<^verbatim>\<open>error\<close> or
  unknown.
\<close>

theorem DebugLevel_rank:
  "DebugLevel c level = (rank level \<le> rank (Debug c))
   \<and> (Debug c \<notin> {''error'', ''warning'', ''info'', ''verbose''} \<longrightarrow>
        DebugLevel c level = (level \<notin> {''warning'', ''info'', ''verbose''}))"
  by (simp add: DebugLevel_def map_index_def debugLevelMap_def rank_def
      DebugError_def DebugWarning_def DebugInfo_def DebugVerbose_def)

theorem DebugLevel_rank_witness:
  "''bogus'' \<notin> {''error'', ''warning'', ''info'', ''verbose''}
   \<and> \<not> DebugLevel \<lparr>filename = ''config.yaml'', listening = False, Mutex = False,
                   Debug = ''bogus''\<rparr> ''warning''
   \<and> DebugLevel \<lparr>filename = ''config.yaml'', listening = False, Mutex = False,
                 Debug = ''bogus''\<rparr> ''nonsense''"
  using DebugLevel_rank [of "\<lparr>filename = ''config.yaml'', listening = False, Mutex = False,
                             Debug = ''bogus''\<rparr>" "''warning''"]
    DebugLevel_rank [of "\<lparr>filename = ''config.yaml'', listening = False, Mutex = False,
                         Debug = ''bogus''\<rparr>" "''nonsense''"]
  by (simp add: rank_def)

section \<open>Arming the reload\<close>

text \<open>
  C9: on a target whose guard is free, the first \<^verbatim>\<open>ListenForSignals\<close> sets the
  listening flag and starts one reload task; a call on a target that is already listening
  returns with the target exactly as it was, so any number of later calls changes nothing
  and no second task is started.
\<close>

theorem ListenForSignals_idempotent:
  assumes "dyn c = VPtr (Some v)" and "\<not> Mutex c"
  shows "fst (ListenForSignals c) = Return None
       \<and> (\<not> listening c \<longrightarrow>
            snd (ListenForSignals c) = c\<lparr>listening := True, tasks := Suc (tasks c)\<rparr>)
       \<and> (listening c \<longrightarrow> snd (ListenForSignals c) = c)
       \<and> (\<forall>k. ((\<lambda>t. snd (ListenForSignals t)) ^^ k) (snd (ListenForSignals c))
                = snd (ListenForSignals c))
       \<and> ListenForSignals (snd (ListenForSignals c)) = (Return None, snd (ListenForSignals c))"
proof -
  have armed: "ListenForSignals t = (Return None, t)"
    if "dyn t = VPtr (Some v)" "\<not> Mutex t" "listening t" for t :: target
    using that by (cases t) (simp add: ListenForSignals_def Lock_def Unlock_def IsListening_def)
  have first: "snd (ListenForSignals c) = c\<lparr>listening := True, tasks := Suc (tasks c)\<rparr>"
    if "\<not> listening c"
    using that assms
    by (cases c)
      (simp add: ListenForSignals_def Lock_def Unlock_def IsListening_def SetListening_def)
  define c' where "c' = snd (ListenForSignals c)"
  have c': "dyn c' = VPtr (Some v)" "\<not> Mutex c'" "listening c'"
    using assms first armed[of c] unfolding c'_def by (cases "listening c"; simp)+
  have iter: "((\<lambda>t. snd (ListenForSignals t)) ^^ k) c' = c'" for k
    by (induction k) (simp_all add: armed[OF c'])
  have "fst (ListenForSignals c) = Return None"
    using assms by (simp add: ListenForSignals_def Let_def)
  then show ?thesis using first armed[of c] assms iter armed[OF c'] unfolding c'_def by simp
qed

theorem ListenForSignals_idempotent_witness:
  "dyn example_target = VPtr (Some example_struct) \<and> \<not> Mutex example_target
   \<and> \<not> listening example_target
   \<and> snd (ListenForSignals example_target) = example_target\<lparr>listening := True, tasks := 1\<rparr>
   \<and> listening (example_target\<lparr>listening := True, tasks := 1\<rparr>)
   \<and> snd (ListenForSignals (example_target\<lparr>listening := True, tasks := 1\<rparr>))
       = example_target\<lparr>listening := True, tasks := 1\<rparr>"
proof -
  have h: "dyn example_target = VPtr (Some example_struct)" "\<not> Mutex example_target"
    "\<not> listening example_target" "tasks example_target = 0"
    by (simp_all add: example_target_def)
  have h': "dyn (example_target\<lparr>listening := True, tasks := 1\<rparr>) = VPtr (Some example_struct)"
    "\<not> Mutex (example_target\<lparr>listening := True, tasks := 1\<rparr>)"
    "listening (example_target\<lparr>listening := True, tasks := 1\<rparr>)"
    by (simp_all add: example_target_def)
  from ListenForSignals_idempotent [OF h(1,2)] h(3,4)
  have 1: "snd (ListenForSignals example_target) = example_target\<lparr>listening := True, tasks := 1\<rparr>"
    by simp
  from ListenForSignals_idempotent [OF h'(1,2)] h'(3)
  have 2: "snd (ListenForSignals (example_target\<lparr>listening := True, tasks := 1\<rparr>))
       = example_target\<lparr>listening := True, tasks := 1\<rparr>"
    by blast
  from h h' 1 2 show ?thesis by simp
qed

end
